theory Spec2Isabelle
  imports Main "HOL-Library.Word"
begin

unbundle bit_operations_syntax

section \<open>The compiler's objects, as the converter reads them\<close>

text \<open>
  The converter of \<^verbatim>\<open>src/lib/converter/converters/types/reference.ts\<close> works on
  objects of the TypeScript compiler. JavaScript compares them by reference
  (\<^verbatim>\<open>visitStack.indexOf(declaration)\<close>), so every object carries its identity as a number.
\<close>

type_synonym sym_id = nat
type_synonym node_id = nat
type_synonym refl_id = nat

text \<open>\<^verbatim>\<open>ts.SyntaxKind\<close>: the two members the converter names, and all the others.\<close>

datatype SyntaxKind = TypeLiteral | ObjectLiteralExpression | OtherSyntaxKind nat

text \<open>
  \<^verbatim>\<open>ts.Node\<close>: the fields read are \<^verbatim>\<open>kind\<close>, \<^verbatim>\<open>symbol\<close>, \<^verbatim>\<open>parent\<close> (followed once, to its
  \<^verbatim>\<open>symbol\<close>) and \<^verbatim>\<open>typeArguments\<close>. A node refers to its symbol by identity; each of the
  optional fields may be undefined.
\<close>

datatype ts_node =
  Node (node_ident: node_id) (kind: SyntaxKind) (symbol_of: "sym_id option")
       (parent: "ts_node option") (typeArguments: "ts_node list option")

text \<open>
  \<^verbatim>\<open>ts.Symbol\<close>: identity, the bit set \<^verbatim>\<open>flags\<close> and the syntax declarations, in order.
  The converter iterates \<^verbatim>\<open>symbol.declarations\<close> without a guard: the array is taken to be
  there, possibly empty.
\<close>

record ts_symbol =
  sym_ident :: sym_id
  flags :: "32 word"
  declarations :: "ts_node list"

text \<open>\<^verbatim>\<open>ts.TypeReference\<close>: the bit set \<^verbatim>\<open>flags\<close>, the optional symbol and type arguments.\<close>

datatype ts_type =
  TsType (type_flags: "32 word") (type_symbol: "ts_symbol option")
         (type_typeArguments: "ts_type list option")

text \<open>
  The enumeration members of the compiler that the converter masks with: they belong to the
  TypeScript library, whose version the repository does not fix, so they are parameters.
\<close>

record ts_enums =
  TypeFlags_ObjectType :: "32 word"
  SymbolFlags_TypeLiteral :: "32 word"
  SymbolFlags_ObjectLiteral :: "32 word"

section \<open>The documentation model\<close>

text \<open>
  Modelled from the spec: what a Reference Type Node holds (section 4.2; the class
  \<^verbatim>\<open>ReferenceType\<close> is not among the sources): the identifier of the registered
  Declaration Node ("resolved"), or the symbol itself with a pending marker, or, after the
  post-pass, the explicit external/unknown marker. The Type Nodes are the three variants the
  converter builds; a ReflectionType refers to its Declaration Node, which is mutated after
  the Type Node is made.
\<close>

datatype ref_target = Resolved refl_id | Pending "sym_id option" | External

datatype Type =
  IntrinsicType string
| ReferenceType ref_target "Type list option"
| ReflectionType refl_id

datatype ReflectionKind = RK_TypeLiteral | RK_Other nat

text \<open>
  \<^verbatim>\<open>DeclarationReflection\<close>: the fields \<^verbatim>\<open>convert\<close> assigns, and the declared type of a member.
  A field that was never assigned is \<open>None\<close>.
\<close>

record DeclarationReflection =
  refl_kind :: "ReflectionKind option"
  refl_name :: "string option"
  refl_parent :: "refl_id option"
  refl_type :: "Type option"

datatype event_name = EVENT_CREATE_DECLARATION | EVENT_OTHER string

record event =
  ev_name :: event_name
  ev_reflection :: refl_id
  ev_node :: "ts_node option"

section \<open>The conversion context\<close>

text \<open>
  \<^verbatim>\<open>Context\<close>: the fields \<^verbatim>\<open>scope\<close> and \<^verbatim>\<open>visitStack\<close> are read by the converter; the
  visit stack holds syntax declarations (line 66 looks a \<^verbatim>\<open>ts.Declaration\<close> up in it).
  The registry and the notifications sent are modelled from the spec (section 3 and 4.4).
  The record also carries the store of the Declaration Nodes allocated by \<^verbatim>\<open>new\<close>, with
  the next free identity, since the nodes are shared mutable objects.
\<close>

record Context =
  scope :: "refl_id option"
  visitStack :: "node_id list"
  registry :: "sym_id \<rightharpoonup> refl_id"
  events :: "event list"
  reflections :: "refl_id \<rightharpoonup> DeclarationReflection"
  next_id :: refl_id

text \<open>
  What a conversion may end with instead of a result: the TypeError that JavaScript raises
  on reading a property of \<^verbatim>\<open>undefined\<close>, the abort of a run on a broken invariant
  (spec, section 7), and the exhaustion of the fuel that bounds the depth of a modelled walk.
\<close>

datatype error = TypeError | Abort | OutOfFuel

text \<open>
  The two dispatchers \<^verbatim>\<open>convertNode\<close> (of \<^verbatim>\<open>../node\<close>) and \<^verbatim>\<open>convertType\<close> (of \<^verbatim>\<open>../type\<close>)
  are not among the sources: they are parameters, any state transformers that may fail.
  The converter discards what \<^verbatim>\<open>convertNode\<close> returns.
\<close>

record dispatch =
  convertNode_g :: "Context \<Rightarrow> ts_node \<Rightarrow> error + Context"
  convertType_g :: "Context \<Rightarrow> ts_node option \<Rightarrow> ts_type option \<Rightarrow> error + (Type \<times> Context)"

text \<open>
  Modelled from the spec: Reference Resolution (\<^verbatim>\<open>createReferenceType\<close> of
  \<^verbatim>\<open>../factories/reference\<close>, section 4.2). A registered symbol gives a resolved Reference
  Type Node; any other gives a pending one that stores the symbol. No type arguments yet.
\<close>

definition createReferenceType :: "Context \<Rightarrow> sym_id option \<Rightarrow> Type" where
  "createReferenceType context symbol =
     (case symbol of
        None \<Rightarrow> ReferenceType (Pending None) None
      | Some s \<Rightarrow>
          (case registry context s of
             Some r \<Rightarrow> ReferenceType (Resolved r) None
           | None \<Rightarrow> ReferenceType (Pending (Some s)) None))"

text \<open>
  Modelled from the spec: \<^verbatim>\<open>Context.registerReflection\<close> (section 4.3: "register it against
  the symbol in the Context's registry"). The arguments are the Declaration Node, a syntax
  node and a symbol (line 81 passes \<^verbatim>\<open>null\<close> for the node): the symbol given is used, else
  the node's.
\<close>

definition registerReflection ::
  "Context \<Rightarrow> refl_id \<Rightarrow> ts_node option \<Rightarrow> sym_id option \<Rightarrow> Context" where
  "registerReflection context r nd symbol =
     (case (case symbol of Some s \<Rightarrow> Some s | None \<Rightarrow> (case nd of Some n \<Rightarrow> symbol_of n | None \<Rightarrow> None)) of
        Some s \<Rightarrow> context\<lparr>registry := (registry context)(s \<mapsto> r)\<rparr>
      | None \<Rightarrow> context)"

text \<open>
  Modelled from the spec: \<^verbatim>\<open>Context.trigger\<close> (section 4.4: one synchronous notification
  with the node and the originating syntax node). The notification is recorded.
\<close>

definition trigger :: "Context \<Rightarrow> event_name \<Rightarrow> refl_id \<Rightarrow> ts_node option \<Rightarrow> Context" where
  "trigger context nm r nd =
     context\<lparr>events := events context @ [\<lparr>ev_name = nm, ev_reflection = r, ev_node = nd\<rparr>]\<rparr>"

text \<open>
  Modelled from the spec: \<^verbatim>\<open>Context.withScope\<close> (section 4.3: "switch the active scope to
  it, convert every syntax declaration under that symbol as nested children, pop the scope").
  The callback runs with the given Declaration Node as the scope, and the scope of before is
  put back after it. An error of the callback propagates. The visit stack is a list of syntax
  declarations, so a Declaration Node is never an entry of it.
\<close>

definition withScope ::
  "Context \<Rightarrow> refl_id \<Rightarrow> (Context \<Rightarrow> error + Context) \<Rightarrow> error + Context" where
  "withScope context r callback =
     (case callback (context\<lparr>scope := Some r\<rparr>) of
        Inl e \<Rightarrow> Inl e
      | Inr c \<Rightarrow> Inr (c\<lparr>scope := scope context\<rparr>))"

section \<open>ReferenceConverter\<close>

text \<open>\<^verbatim>\<open>supportsNode\<close> and \<^verbatim>\<open>supportsType\<close>, lines 29 to 39: \<^verbatim>\<open>!!(type.flags & ObjectType)\<close>.\<close>

definition supportsNode :: "ts_enums \<Rightarrow> Context \<Rightarrow> ts_node \<Rightarrow> ts_type \<Rightarrow> bool" where
  "supportsNode K context node type = (type_flags type AND TypeFlags_ObjectType K \<noteq> 0)"

definition supportsType :: "ts_enums \<Rightarrow> Context \<Rightarrow> ts_type \<Rightarrow> bool" where
  "supportsType K context type = (type_flags type AND TypeFlags_ObjectType K \<noteq> 0)"

text \<open>
  The loop of lines 65 to 74: the first declaration of the symbol that is on the visit
  stack ends the conversion. \<open>None\<close>: the loop ran to its end. Reading \<^verbatim>\<open>.symbol\<close> of a
  missing parent raises a TypeError.
\<close>

fun convert_loop :: "Context \<Rightarrow> ts_node list \<Rightarrow> (error + Type) option" where
  "convert_loop context [] = None"
| "convert_loop context (declaration # rest) =
     (if node_ident declaration \<in> set (visitStack context) then
        (if kind declaration = TypeLiteral \<or> kind declaration = ObjectLiteralExpression then
           (case parent declaration of
              None \<Rightarrow> Some (Inl TypeError)
            | Some p \<Rightarrow> Some (Inr (createReferenceType context (symbol_of p))))
         else Some (Inr (createReferenceType context (symbol_of declaration))))
      else convert_loop context rest)"

text \<open>\<^verbatim>\<open>symbol.declarations.forEach((node) => convertNode(context, node))\<close>, lines 84 to 86.\<close>

fun forEach_convertNode :: "dispatch \<Rightarrow> Context \<Rightarrow> ts_node list \<Rightarrow> error + Context" where
  "forEach_convertNode D context [] = Inr context"
| "forEach_convertNode D context (node # rest) =
     (case convertNode_g D context node of
        Inl e \<Rightarrow> Inl e
      | Inr c \<Rightarrow> forEach_convertNode D c rest)"

text \<open>
  Lines 76 to 79: \<^verbatim>\<open>new DeclarationReflection()\<close> and the three assignments. The new object
  takes the next free identity.
\<close>

definition new_declaration :: "Context \<Rightarrow> refl_id \<times> Context" where
  "new_declaration context =
     (next_id context,
      context\<lparr>reflections := (reflections context)(next_id context \<mapsto>
                 \<lparr>refl_kind = Some RK_TypeLiteral, refl_name = Some ''__type'',
                  refl_parent = scope context, refl_type = None\<rparr>),
              next_id := Suc (next_id context)\<rparr>)"

text \<open>\<^verbatim>\<open>convert\<close>, lines 64 to 90.\<close>

definition convert ::
  "dispatch \<Rightarrow> Context \<Rightarrow> ts_symbol \<Rightarrow> ts_node option \<Rightarrow> error + (Type \<times> Context)" where
  "convert D context symbol node =
     (case convert_loop context (declarations symbol) of
        Some (Inl e) \<Rightarrow> Inl e
      | Some (Inr t) \<Rightarrow> Inr (t, context)
      | None \<Rightarrow>
          (let (declaration, c1) = new_declaration context;
               c2 = registerReflection c1 declaration None (Some (sym_ident symbol));
               c3 = trigger c2 EVENT_CREATE_DECLARATION declaration node
           in case withScope c3 declaration (\<lambda>c. forEach_convertNode D c (declarations symbol)) of
                Inl e \<Rightarrow> Inl e
              | Inr c4 \<Rightarrow> Inr (ReflectionType declaration, c4)))"

text \<open>
  \<^verbatim>\<open>typeArguments.map(...)\<close> of lines 117 and 147: the arguments are converted from left to
  right, each in the context the one before left, and the results keep that order.
\<close>

fun map_convert ::
  "(Context \<Rightarrow> 'a \<Rightarrow> error + (Type \<times> Context)) \<Rightarrow> Context \<Rightarrow> 'a list \<Rightarrow> error + (Type list \<times> Context)" where
  "map_convert f context [] = Inr ([], context)"
| "map_convert f context (x # xs) =
     (case f context x of
        Inl e \<Rightarrow> Inl e
      | Inr (t, c) \<Rightarrow>
          (case map_convert f c xs of
             Inl e \<Rightarrow> Inl e
           | Inr (ts, c') \<Rightarrow> Inr (t # ts, c')))"

text \<open>\<^verbatim>\<open>result.typeArguments = ...\<close> on the Reference Type Node that was just created.\<close>

fun set_typeArguments :: "Type \<Rightarrow> Type list \<Rightarrow> Type" where
  "set_typeArguments (ReferenceType target _) ts = ReferenceType target (Some ts)"
| "set_typeArguments t ts = t"

text \<open>
  The test of lines 111 and 141:
  \<^verbatim>\<open>symbol.flags & SymbolFlags.TypeLiteral || symbol.flags & SymbolFlags.ObjectLiteral\<close>.
\<close>

definition is_literal_symbol :: "ts_enums \<Rightarrow> ts_symbol \<Rightarrow> bool" where
  "is_literal_symbol K symbol =
     (flags symbol AND SymbolFlags_TypeLiteral K \<noteq> 0 \<or> flags symbol AND SymbolFlags_ObjectLiteral K \<noteq> 0)"

text \<open>\<^verbatim>\<open>convertNode\<close>, lines 108 to 121.\<close>

definition convertNode ::
  "ts_enums \<Rightarrow> dispatch \<Rightarrow> Context \<Rightarrow> ts_node \<Rightarrow> ts_type \<Rightarrow> error + (Type \<times> Context)" where
  "convertNode K D context node type =
     (case type_symbol type of
        None \<Rightarrow> Inr (IntrinsicType ''Object'', context)
      | Some symbol \<Rightarrow>
          if is_literal_symbol K symbol then convert D context symbol (Some node)
          else
            (let result = createReferenceType context (Some (sym_ident symbol))
             in case typeArguments node of
                  None \<Rightarrow> Inr (result, context)
                | Some ns \<Rightarrow>
                    (case map_convert (\<lambda>c n. convertType_g D c (Some n) None) context ns of
                       Inl e \<Rightarrow> Inl e
                     | Inr (ts, c) \<Rightarrow> Inr (set_typeArguments result ts, c))))"

text \<open>\<^verbatim>\<open>convertType\<close>, lines 138 to 151.\<close>

definition convertType ::
  "ts_enums \<Rightarrow> dispatch \<Rightarrow> Context \<Rightarrow> ts_type \<Rightarrow> error + (Type \<times> Context)" where
  "convertType K D context type =
     (case type_symbol type of
        None \<Rightarrow> Inr (IntrinsicType ''Object'', context)
      | Some symbol \<Rightarrow>
          if is_literal_symbol K symbol then convert D context symbol None
          else
            (let result = createReferenceType context (Some (sym_ident symbol))
             in case type_typeArguments type of
                  None \<Rightarrow> Inr (result, context)
                | Some tys \<Rightarrow>
                    (case map_convert (\<lambda>c t. convertType_g D c None (Some t)) context tys of
                       Inl e \<Rightarrow> Inl e
                     | Inr (ts, c) \<Rightarrow> Inr (set_typeArguments result ts, c))))"


section \<open>The post-pass over pending references\<close>

text \<open>
  Modelled from the spec: the resolution pass of section 4.2, of which the repository's
  sources hold nothing. A pending reference is looked up in the final registry; a symbol
  that is still not found gives the external/unknown marker. Type arguments are Type Nodes
  and are resolved as well.
\<close>

fun resolve_target :: "(sym_id \<rightharpoonup> refl_id) \<Rightarrow> ref_target \<Rightarrow> ref_target" where
  "resolve_target reg (Pending (Some s)) = (case reg s of Some r \<Rightarrow> Resolved r | None \<Rightarrow> External)"
| "resolve_target reg (Pending None) = External"
| "resolve_target reg (Resolved r) = Resolved r"
| "resolve_target reg External = External"

fun resolveType :: "(sym_id \<rightharpoonup> refl_id) \<Rightarrow> Type \<Rightarrow> Type" where
  "resolveType reg (ReferenceType target args) =
     ReferenceType (resolve_target reg target) (map_option (map (resolveType reg)) args)"
| "resolveType reg (IntrinsicType n) = IntrinsicType n"
| "resolveType reg (ReflectionType r) = ReflectionType r"

text \<open>Modelled from the spec: the pass visits the declared type of every Declaration Node.\<close>

definition resolve_pass :: "Context \<Rightarrow> Context" where
  "resolve_pass context =
     context\<lparr>reflections :=
       (\<lambda>r. map_option (\<lambda>d. d\<lparr>refl_type := map_option (resolveType (registry context)) (refl_type d)\<rparr>)
                       (reflections context r))\<rparr>"

text \<open>Every reference target of a Type Node, the node's own first, then its arguments'.\<close>

fun targets :: "Type \<Rightarrow> ref_target list" where
  "targets (ReferenceType target args) =
     target # (case args of None \<Rightarrow> [] | Some ts \<Rightarrow> concat (map targets ts))"
| "targets (IntrinsicType n) = []"
| "targets (ReflectionType r) = []"

section \<open>The walk over declarations and their members\<close>







section \<open>Path conditions\<close>

text \<open>Some declaration of the symbol is on the visit stack: the condition of line 66.\<close>

definition has_visited_declaration :: "Context \<Rightarrow> ts_symbol \<Rightarrow> bool" where
  "has_visited_declaration context symbol =
     list_ex (\<lambda>d. node_ident d \<in> set (visitStack context)) (declarations symbol)"

text \<open>
  What the conversion of a child may be relied on for, when notifications are counted: it
  allocates upwards, and the notifications it adds carry nodes that it allocated itself.
\<close>

definition fires_only_for_new :: "dispatch \<Rightarrow> bool" where
  "fires_only_for_new D \<longleftrightarrow>
     (\<forall>c n c'. convertNode_g D c n = Inr c' \<longrightarrow>
        next_id c \<le> next_id c' \<and>
        (\<exists>es. events c' = events c @ es \<and> list_all (\<lambda>e. next_id c \<le> ev_reflection e) es))"















section \<open>Concrete inputs\<close>

text \<open>
  The masks of TypeScript 1.x: \<^verbatim>\<open>TypeFlags.ObjectType\<close> is the union of Class, Interface,
  Reference, Tuple and Anonymous; the two symbol flags are single bits.
\<close>

definition example_enums :: ts_enums where
  "example_enums =
     \<lparr>TypeFlags_ObjectType = 48128, SymbolFlags_TypeLiteral = 2048, SymbolFlags_ObjectLiteral = 4096\<rparr>"

text \<open>Dispatchers for the examples: children that convert to nothing, and one that names
  the type argument it is given.\<close>

definition idle_dispatch :: dispatch where
  "idle_dispatch =
     \<lparr>convertNode_g = (\<lambda>c n. Inr c), convertType_g = (\<lambda>c n t. Inr (IntrinsicType ''any'', c))\<rparr>"

definition naming_dispatch :: dispatch where
  "naming_dispatch =
     \<lparr>convertNode_g = (\<lambda>c n. Inr c),
      convertType_g =
        (\<lambda>c n t. Inr (IntrinsicType
           (case n of
              Some (Node i k s p a) \<Rightarrow> (if i = 10 then ''string'' else ''number'')
            | None \<Rightarrow>
                (case t of
                   Some (TsType f s a) \<Rightarrow> (if f = 2 then ''string'' else ''number'')
                 | None \<Rightarrow> ''any'')), c))\<rparr>"

text \<open>A child conversion that succeeds only when the visit stack it is given is \<open>st\<close>.\<close>

definition stack_probe :: "node_id list \<Rightarrow> dispatch" where
  "stack_probe st =
     \<lparr>convertNode_g = (\<lambda>c n. if visitStack c = st then Inr c else Inl Abort),
      convertType_g = (\<lambda>c n t. Inl Abort)\<rparr>"

definition empty_context :: Context where
  "empty_context =
     \<lparr>scope = None, visitStack = [], registry = Map.empty, events = [],
      reflections = Map.empty, next_id = 0\<rparr>"

text \<open>
  \<^verbatim>\<open>type T = { self: T }\<close>: the alias declaration (symbol 1), the type literal nested in it
  (symbol 2, the anonymous \<^verbatim>\<open>__type\<close>), and the type of the literal.
\<close>

definition alias_T :: ts_node where
  "alias_T = Node 1 (OtherSyntaxKind 0) (Some 1) None None"

definition literal_T :: ts_node where
  "literal_T = Node 2 TypeLiteral (Some 2) (Some alias_T) None"

definition literal_symbol :: ts_symbol where
  "literal_symbol = \<lparr>sym_ident = 2, flags = 2048, declarations = [literal_T]\<rparr>"

definition literal_type :: ts_type where
  "literal_type = TsType 32768 (Some literal_symbol) None"

text \<open>A literal symbol that has no declaration at all, and its type.\<close>

definition bare_symbol :: ts_symbol where
  "bare_symbol = \<lparr>sym_ident = 5, flags = 2048, declarations = []\<rparr>"

definition bare_type :: ts_type where
  "bare_type = TsType 32768 (Some bare_symbol) None"

text \<open>
  A function type literal: its symbol carries the type-literal flag, its declaration is
  neither a type literal nor an object literal expression and carries that symbol itself.
\<close>

definition function_literal_symbol :: ts_symbol where
  "function_literal_symbol =
     \<lparr>sym_ident = 2, flags = 2048,
      declarations = [Node 4 (OtherSyntaxKind 3) (Some 2) (Some alias_T) None]\<rparr>"

text \<open>\<^verbatim>\<open>Bar<string, number>\<close>: a class symbol, the type and the syntax of the reference.\<close>

definition named_symbol :: ts_symbol where
  "named_symbol =
     \<lparr>sym_ident = 7, flags = 32, declarations = [Node 8 (OtherSyntaxKind 1) (Some 7) None None]\<rparr>"

definition named_type :: ts_type where
  "named_type = TsType 1024 (Some named_symbol) (Some [TsType 2 None None, TsType 4 None None])"

definition reference_node :: ts_node where
  "reference_node =
     Node 9 (OtherSyntaxKind 2) None None
       (Some [Node 10 (OtherSyntaxKind 3) None None None, Node 11 (OtherSyntaxKind 4) None None None])"

text \<open>A finished run that holds one member whose declared type is pending on symbol 1.\<close>

definition pending_context :: Context where
  "pending_context =
     \<lparr>scope = None, visitStack = [], registry = [2 \<mapsto> 0], events = [],
      reflections = [1 \<mapsto> \<lparr>refl_kind = Some (RK_Other 0), refl_name = Some ''self'',
                            refl_parent = Some 0,
                            refl_type = Some (ReferenceType (Pending (Some 1)) None)\<rparr>],
      next_id = 2\<rparr>"






section \<open>Properties of the converter\<close>

lemmas example_defs = example_enums_def idle_dispatch_def empty_context_def
  alias_T_def literal_T_def literal_symbol_def literal_type_def

subsection \<open>Applicability\<close>

lemma and_neq_zero_iff_common_bit:
  "(a AND b \<noteq> 0) = (\<exists>n. bit a n \<and> bit b n)" for a b :: "32 word"
proof
  assume "a AND b \<noteq> 0"
  then obtain n where "bit (a AND b) n"
    by (auto simp add: bit_eq_iff)
  then show "\<exists>n. bit a n \<and> bit b n"
    by (auto simp add: bit_and_iff)
next
  assume "\<exists>n. bit a n \<and> bit b n"
  then obtain n where "bit (a AND b) n"
    by (auto simp add: bit_and_iff)
  then show "a AND b \<noteq> 0"
    by auto
qed

text \<open>
  C9: \<^verbatim>\<open>supportsNode\<close> and \<^verbatim>\<open>supportsType\<close> hold exactly for the types that carry the
  object-type category, that is, whose flags share a bit with the mask
  \<^verbatim>\<open>TypeFlags.ObjectType\<close>; the context and the syntax node play no part.
\<close>

theorem supports_iff_object_type_flag:
  "supportsNode K context node type =
     (\<exists>n. bit (type_flags type) n \<and> bit (TypeFlags_ObjectType K) n)
   \<and> supportsType K context type =
     (\<exists>n. bit (type_flags type) n \<and> bit (TypeFlags_ObjectType K) n)"
  unfolding supportsNode_def supportsType_def and_neq_zero_iff_common_bit by simp

lemma supports_examples:
  "supportsType example_enums empty_context literal_type"
  "\<not> supportsType example_enums empty_context (TsType 2 None None)"
  by (simp_all add: supportsType_def example_defs)

subsection \<open>The loop over the declarations\<close>

lemma convert_loop_None:
  "convert_loop context ds = None \<longleftrightarrow> list_all (\<lambda>d. node_ident d \<notin> set (visitStack context)) ds"
  by (induction ds) (auto split: option.splits)

lemma convert_loop_first:
  assumes "find (\<lambda>d. node_ident d \<in> set (visitStack context)) ds = Some d"
  shows "convert_loop context ds = convert_loop context [d]"
  using assms by (induction ds) (auto split: if_splits)

lemma convert_loop_None_iff:
  "convert_loop context (declarations symbol) = None \<longleftrightarrow> \<not> has_visited_declaration context symbol"
  by (auto simp add: convert_loop_None has_visited_declaration_def list_ex_iff list_all_iff)

lemma convert_loop_cases:
  "convert_loop context ds = None \<or> convert_loop context ds = Some (Inl TypeError)
   \<or> (\<exists>t. convert_loop context ds = Some (Inr t))"
  by (induction ds) (auto split: option.splits)

lemma createReferenceType_shape:
  "\<exists>target. createReferenceType c s = ReferenceType target None"
  by (auto simp: createReferenceType_def split: option.splits)

lemma missing_parent_raises:
  assumes "find (\<lambda>d. node_ident d \<in> set (visitStack context)) (declarations symbol) = Some d"
    and "kind d = TypeLiteral \<or> kind d = ObjectLiteralExpression" and "parent d = None"
  shows "convert D context symbol node = Inl TypeError"
proof -
  from assms(1) have "node_ident d \<in> set (visitStack context)"
    by (auto simp: find_Some_iff)
  then show ?thesis
    using assms(2,3) by (auto simp: convert_def convert_loop_first [OF assms(1)])
qed

text \<open>
  C1: when a declaration of the symbol is on the visit stack, \<^verbatim>\<open>convert\<close> returns at the
  first such declaration, without calling any converter and with the context as it was. The
  result is the Reference Type Node of Reference Resolution for the symbol of the
  declaration's parent when the declaration is a type literal or an object literal
  expression, and for the declaration's own symbol otherwise. (A literal declaration is
  nested in a parent; without one, reading the parent's symbol raises.)
\<close>

theorem convert_cycle_short_circuit:
  assumes "find (\<lambda>d. node_ident d \<in> set (visitStack context)) (declarations symbol) = Some d"
    and "kind d = TypeLiteral \<or> kind d = ObjectLiteralExpression \<Longrightarrow> parent d = Some p"
  shows "convert D context symbol node =
           Inr (createReferenceType context
                  (if kind d = TypeLiteral \<or> kind d = ObjectLiteralExpression then symbol_of p
                   else symbol_of d), context)"
proof -
  from assms(1) have on: "node_ident d \<in> set (visitStack context)"
    by (auto simp: find_Some_iff)
  show ?thesis
    using assms(2) on by (auto simp: convert_def convert_loop_first [OF assms(1)])
qed

theorem convert_cycle_short_circuit_witness:
  "find (\<lambda>d. node_ident d \<in> set (visitStack (empty_context\<lparr>visitStack := [2]\<rparr>)))
        (declarations literal_symbol) = Some literal_T
   \<and> kind literal_T = TypeLiteral \<and> parent literal_T = Some alias_T
   \<and> convert idle_dispatch (empty_context\<lparr>visitStack := [2]\<rparr>) literal_symbol None =
       Inr (ReferenceType (Pending (Some 1)) None, empty_context\<lparr>visitStack := [2]\<rparr>)"
  using convert_cycle_short_circuit [of "empty_context\<lparr>visitStack := [2]\<rparr>" literal_symbol
          literal_T alias_T idle_dispatch None]
  by (simp add: example_defs createReferenceType_def)

text \<open>
  C10: on the cycle path \<^verbatim>\<open>convert\<close> changes nothing. Either it raises (the missing parent
  of above), or it returns the very context it was given: the registry, the notifications
  sent, the store of Declaration Nodes and the next free identity are the same.
\<close>

theorem cycle_path_leaves_context:
  assumes "has_visited_declaration context symbol"
  shows "convert D context symbol node = Inl TypeError
         \<or> (\<exists>t. convert D context symbol node = Inr (t, context))"
proof -
  from assms have "convert_loop context (declarations symbol) \<noteq> None"
    by (simp add: convert_loop_None_iff)
  with convert_loop_cases [of "context" "declarations symbol"]
  show ?thesis
    by (auto simp: convert_def)
qed

theorem cycle_path_leaves_context_witness:
  "has_visited_declaration (empty_context\<lparr>visitStack := [2]\<rparr>) literal_symbol
   \<and> convert idle_dispatch (empty_context\<lparr>visitStack := [2]\<rparr>) literal_symbol None =
       Inr (ReferenceType (Pending (Some 1)) None, empty_context\<lparr>visitStack := [2]\<rparr>)"
  using cycle_path_leaves_context [of "empty_context\<lparr>visitStack := [2]\<rparr>" literal_symbol idle_dispatch None]
  by (simp add: example_defs has_visited_declaration_def convert_def createReferenceType_def)

subsection \<open>The literal path\<close>

lemma forEach_ignores_convertType_g:
  "forEach_convertNode (D\<lparr>convertType_g := f\<rparr>) c ds = forEach_convertNode D c ds"
  by (induction ds arbitrary: c) (auto split: sum.splits)

lemma convert_ignores_convertType_g:
  "convert (D\<lparr>convertType_g := f\<rparr>) context symbol node = convert D context symbol node"
  by (simp add: convert_def forEach_ignores_convertType_g cong: option.case_cong)

lemma convert_literal_unfold:
  assumes "\<not> has_visited_declaration context symbol"
  shows "convert D context symbol node =
     (case forEach_convertNode D
             ((trigger (registerReflection (snd (new_declaration context)) (next_id context) None
                          (Some (sym_ident symbol)))
                       EVENT_CREATE_DECLARATION (next_id context) node)\<lparr>scope := Some (next_id context)\<rparr>)
             (declarations symbol) of
        Inl e \<Rightarrow> Inl e
      | Inr c' \<Rightarrow> Inr (ReflectionType (next_id context), c'\<lparr>scope := scope context\<rparr>))"
proof -
  from assms have "convert_loop context (declarations symbol) = None"
    by (simp add: convert_loop_None_iff)
  then show ?thesis
    by (simp add: convert_def new_declaration_def withScope_def registerReflection_def trigger_def
             split: sum.splits)
qed

lemma forEach_chain:
  assumes "forEach_convertNode D c ds = Inr c'"
  shows "\<exists>cs. length cs = Suc (length ds) \<and> hd cs = c \<and> last cs = c'
           \<and> (\<forall>i < length ds. convertNode_g D (cs ! i) (ds ! i) = Inr (cs ! Suc i))"
  using assms
proof (induction ds arbitrary: c)
  case Nil
  then show ?case by (intro exI [of _ "[c]"]) simp
next
  case (Cons d ds)
  from Cons.prems obtain c1 where
    step: "convertNode_g D c d = Inr c1" and rest: "forEach_convertNode D c1 ds = Inr c'"
    by (auto split: sum.splits)
  from Cons.IH [OF rest] obtain cs where
    cs: "length cs = Suc (length ds)" "hd cs = c1" "last cs = c'"
        "\<forall>i < length ds. convertNode_g D (cs ! i) (ds ! i) = Inr (cs ! Suc i)"
    by blast
  from cs(1) have ne: "cs \<noteq> []" by auto
  have nth0: "cs ! 0 = c1" using cs(2) ne by (simp add: hd_conv_nth)
  have "\<forall>i < length (d # ds). convertNode_g D ((c # cs) ! i) ((d # ds) ! i) = Inr ((c # cs) ! Suc i)"
  proof (intro allI impI)
    fix i assume "i < length (d # ds)"
    then show "convertNode_g D ((c # cs) ! i) ((d # ds) ! i) = Inr ((c # cs) ! Suc i)"
      using step cs(4) nth0 by (cases i) auto
  qed
  then show ?case
    using cs ne by (intro exI [of _ "c # cs"]) simp
qed

text \<open>
  C3, as the code has it: when no declaration of the symbol is on the visit stack,
  \<^verbatim>\<open>convert\<close> allocates a Declaration Node of kind type literal, named \<^verbatim>\<open>__type\<close>, whose
  parent is the current scope; registers it for the symbol; sends the notification; and only
  then, with the node as the scope, converts the declarations of the symbol from first to
  last. It leaves the visit stack as it found it (the conversion of each declaration sees the
  caller's); afterwards it puts the scope back and returns the node in a ReflectionType.
\<close>

theorem literal_path_steps:
  assumes "\<not> has_visited_declaration context symbol"
  shows "\<exists>c. reflections c (next_id context) =
               Some \<lparr>refl_kind = Some RK_TypeLiteral, refl_name = Some ''__type'',
                     refl_parent = scope context, refl_type = None\<rparr>
           \<and> registry c (sym_ident symbol) = Some (next_id context)
           \<and> events c = events context @
                  [\<lparr>ev_name = EVENT_CREATE_DECLARATION, ev_reflection = next_id context, ev_node = node\<rparr>]
           \<and> scope c = Some (next_id context)
           \<and> visitStack c = visitStack context
           \<and> convert D context symbol node =
               (case forEach_convertNode D c (declarations symbol) of
                  Inl e \<Rightarrow> Inl e
                | Inr c' \<Rightarrow> Inr (ReflectionType (next_id context), c'\<lparr>scope := scope context\<rparr>))
           \<and> (\<forall>t c''. convert D context symbol node = Inr (t, c'') \<longrightarrow>
                 t = ReflectionType (next_id context) \<and>
                 (\<exists>cs. length cs = Suc (length (declarations symbol)) \<and> hd cs = c
                     \<and> c'' = (last cs)\<lparr>scope := scope context\<rparr>
                     \<and> (\<forall>i < length (declarations symbol).
                           convertNode_g D (cs ! i) (declarations symbol ! i) = Inr (cs ! Suc i))))"
proof -
  define c where "c = (trigger (registerReflection (snd (new_declaration context)) (next_id context) None
                          (Some (sym_ident symbol)))
                       EVENT_CREATE_DECLARATION (next_id context) node)\<lparr>scope := Some (next_id context)\<rparr>"
  have fields: "reflections c (next_id context) =
               Some \<lparr>refl_kind = Some RK_TypeLiteral, refl_name = Some ''__type'',
                     refl_parent = scope context, refl_type = None\<rparr>"
    "registry c (sym_ident symbol) = Some (next_id context)"
    "events c = events context @
                  [\<lparr>ev_name = EVENT_CREATE_DECLARATION, ev_reflection = next_id context, ev_node = node\<rparr>]"
    "scope c = Some (next_id context)"
    "visitStack c = visitStack context"
    by (simp_all add: c_def new_declaration_def registerReflection_def trigger_def)
  have conv: "convert D context symbol node =
               (case forEach_convertNode D c (declarations symbol) of
                  Inl e \<Rightarrow> Inl e
                | Inr c' \<Rightarrow> Inr (ReflectionType (next_id context), c'\<lparr>scope := scope context\<rparr>))"
    unfolding c_def by (rule convert_literal_unfold [OF assms])
  have order: "\<forall>t c''. convert D context symbol node = Inr (t, c'') \<longrightarrow>
                 t = ReflectionType (next_id context) \<and>
                 (\<exists>cs. length cs = Suc (length (declarations symbol)) \<and> hd cs = c
                     \<and> c'' = (last cs)\<lparr>scope := scope context\<rparr>
                     \<and> (\<forall>i < length (declarations symbol).
                           convertNode_g D (cs ! i) (declarations symbol ! i) = Inr (cs ! Suc i)))"
  proof (intro allI impI)
    fix t c''
    assume "convert D context symbol node = Inr (t, c'')"
    with conv obtain c1 where
      run: "forEach_convertNode D c (declarations symbol) = Inr c1"
      and res: "t = ReflectionType (next_id context)" "c'' = c1\<lparr>scope := scope context\<rparr>"
      by (auto split: sum.splits)
    from forEach_chain [OF run] res
    show "t = ReflectionType (next_id context) \<and>
                 (\<exists>cs. length cs = Suc (length (declarations symbol)) \<and> hd cs = c
                     \<and> c'' = (last cs)\<lparr>scope := scope context\<rparr>
                     \<and> (\<forall>i < length (declarations symbol).
                           convertNode_g D (cs ! i) (declarations symbol ! i) = Inr (cs ! Suc i)))"
      by blast
  qed
  from fields conv order show ?thesis
    by (intro exI [of _ c] conjI) assumption+
qed

theorem literal_path_steps_witness:
  "\<not> has_visited_declaration empty_context literal_symbol
   \<and> convert idle_dispatch empty_context literal_symbol (Some alias_T) =
       Inr (ReflectionType 0,
            \<lparr>scope = None, visitStack = [], registry = [2 \<mapsto> 0],
             events = [\<lparr>ev_name = EVENT_CREATE_DECLARATION, ev_reflection = 0, ev_node = Some alias_T\<rparr>],
             reflections = [0 \<mapsto> \<lparr>refl_kind = Some RK_TypeLiteral, refl_name = Some ''__type'',
                                  refl_parent = None, refl_type = None\<rparr>],
             next_id = 1\<rparr>)"
  using literal_path_steps [of empty_context literal_symbol "Some alias_T" idle_dispatch]
  by (simp add: example_defs has_visited_declaration_def convert_def new_declaration_def
        registerReflection_def trigger_def withScope_def)

text \<open>
  C3, as stated, fails: nothing is pushed onto the visit stack by \<^verbatim>\<open>convert\<close>.
  The conversion of the literal's declaration is handed the visit stack of the caller (here
  the empty one): a child that insists on that stack succeeds, one that expects an entry
  fails.
\<close>

theorem visit_stack_push_counterexample:
  "\<not> has_visited_declaration empty_context literal_symbol
   \<and> map_sum id fst (convert (stack_probe (visitStack empty_context)) empty_context literal_symbol None)
       = Inr (ReflectionType 0)
   \<and> convert (stack_probe [2]) empty_context literal_symbol None = Inl Abort
   \<and> convert (stack_probe [0]) empty_context literal_symbol None = Inl Abort"
  by (simp add: example_defs stack_probe_def has_visited_declaration_def convert_def
        new_declaration_def registerReflection_def trigger_def withScope_def)

lemma forEach_events:
  assumes "fires_only_for_new D" and "forEach_convertNode D c ds = Inr c'"
  shows "next_id c \<le> next_id c' \<and>
         (\<exists>es. events c' = events c @ es \<and> list_all (\<lambda>e. next_id c \<le> ev_reflection e) es)"
  using assms(2)
proof (induction ds arbitrary: c)
  case Nil
  then show ?case by simp
next
  case (Cons d ds)
  from Cons.prems obtain c1 where
    one: "convertNode_g D c d = Inr c1" and rest: "forEach_convertNode D c1 ds = Inr c'"
    by (auto split: sum.splits)
  from assms(1) one obtain es1 where
    s1: "next_id c \<le> next_id c1" "events c1 = events c @ es1"
        "list_all (\<lambda>e. next_id c \<le> ev_reflection e) es1"
    unfolding fires_only_for_new_def by blast
  from Cons.IH [OF rest] obtain es2 where
    s2: "next_id c1 \<le> next_id c'" "events c' = events c1 @ es2"
        "list_all (\<lambda>e. next_id c1 \<le> ev_reflection e) es2"
    by blast
  from s1(1) s2(3) have "list_all (\<lambda>e. next_id c \<le> ev_reflection e) es2"
    by (auto simp: list_all_iff)
  with s1 s2 show ?case
    by (intro conjI exI [of _ "es1 @ es2"]) auto
qed

lemma idle_fires_only_for_new: "fires_only_for_new idle_dispatch"
  by (simp add: fires_only_for_new_def idle_dispatch_def)

text \<open>
  C7: when \<^verbatim>\<open>convert\<close> creates a Declaration Node it sends one creation notification, with
  the node and the syntax node it was given (none from \<^verbatim>\<open>convertType\<close>), and the
  notification is already recorded in the context in which the first declaration is
  converted. \<^verbatim>\<open>convert\<close> sends no other: when the children send notifications for their own
  new nodes only, the run ends with exactly one notification for this node.
\<close>

theorem creation_notification_once_before_children:
  assumes "\<not> has_visited_declaration context symbol"
  shows "\<exists>c. events c = events context @
                  [\<lparr>ev_name = EVENT_CREATE_DECLARATION, ev_reflection = next_id context, ev_node = node\<rparr>]
           \<and> reflections c (next_id context) \<noteq> None
           \<and> next_id c = Suc (next_id context)
           \<and> convert D context symbol node =
               (case forEach_convertNode D c (declarations symbol) of
                  Inl e \<Rightarrow> Inl e
                | Inr c' \<Rightarrow> Inr (ReflectionType (next_id context), c'\<lparr>scope := scope context\<rparr>))
           \<and> (fires_only_for_new D \<longrightarrow>
                list_all (\<lambda>e. ev_reflection e < next_id context) (events context) \<longrightarrow>
                (\<forall>t c'. convert D context symbol node = Inr (t, c') \<longrightarrow>
                   filter (\<lambda>e. ev_reflection e = next_id context) (events c') =
                     [\<lparr>ev_name = EVENT_CREATE_DECLARATION, ev_reflection = next_id context,
                       ev_node = node\<rparr>]))"
proof -
  define r where "r = next_id context"
  define ev where "ev = \<lparr>ev_name = EVENT_CREATE_DECLARATION, ev_reflection = r, ev_node = node\<rparr>"
  define c where "c = (trigger (registerReflection (snd (new_declaration context)) r None
                          (Some (sym_ident symbol))) EVENT_CREATE_DECLARATION r node)\<lparr>scope := Some r\<rparr>"
  have ev_c: "events c = events context @ [ev]"
    and ex: "reflections c r \<noteq> None" and nx: "next_id c = Suc r"
    by (simp_all add: c_def ev_def r_def new_declaration_def registerReflection_def trigger_def)
  have conv: "convert D context symbol node =
               (case forEach_convertNode D c (declarations symbol) of
                  Inl e \<Rightarrow> Inl e
                | Inr c' \<Rightarrow> Inr (ReflectionType r, c'\<lparr>scope := scope context\<rparr>))"
    unfolding c_def r_def by (rule convert_literal_unfold [OF assms])
  have once: "filter (\<lambda>e. ev_reflection e = r) (events c') = [ev]"
    if rely: "fires_only_for_new D"
      and old: "list_all (\<lambda>e. ev_reflection e < r) (events context)"
      and res: "convert D context symbol node = Inr (t, c')" for t c'
  proof -
    from res conv obtain c1 where
      run: "forEach_convertNode D c (declarations symbol) = Inr c1"
      and c': "c' = c1\<lparr>scope := scope context\<rparr>"
      by (auto split: sum.splits)
    from forEach_events [OF rely run] nx obtain es where
      es: "events c1 = events c @ es" "list_all (\<lambda>e. Suc r \<le> ev_reflection e) es"
      by auto
    from old have "filter (\<lambda>e. ev_reflection e = r) (events context) = []"
      by (auto simp: list_all_iff filter_empty_conv)
    moreover from es(2) have "filter (\<lambda>e. ev_reflection e = r) es = []"
      by (auto simp: list_all_iff filter_empty_conv)
    ultimately show ?thesis
      using es(1) ev_c c' by (simp add: ev_def)
  qed
  from ev_c ex nx conv once show ?thesis
    unfolding ev_def r_def by (intro exI [of _ c] conjI) blast+
qed

theorem creation_notification_witness:
  "\<not> has_visited_declaration empty_context literal_symbol
   \<and> fires_only_for_new idle_dispatch
   \<and> list_all (\<lambda>e. ev_reflection e < next_id empty_context) (events empty_context)
   \<and> map_sum id (events \<circ> snd) (convert idle_dispatch empty_context literal_symbol (Some alias_T)) =
       Inr [\<lparr>ev_name = EVENT_CREATE_DECLARATION, ev_reflection = 0, ev_node = Some alias_T\<rparr>]"
  using creation_notification_once_before_children
          [of empty_context literal_symbol "Some alias_T" idle_dispatch]
        idle_fires_only_for_new
  by (simp add: example_defs has_visited_declaration_def convert_def new_declaration_def
        registerReflection_def trigger_def withScope_def)


subsection \<open>The two entry points\<close>

text \<open>
  C4, as the code has it: the guard of \<^verbatim>\<open>convertNode\<close> and \<^verbatim>\<open>convertType\<close> is on the
  type's symbol, not on the symbol's declarations. A type that has no symbol converts to
  the intrinsic \<^verbatim>\<open>Object\<close>; nothing is raised and the context is as it was.
\<close>

theorem no_symbol_gives_Object:
  assumes "type_symbol type = None"
  shows "convertNode K D context node type = Inr (IntrinsicType ''Object'', context)
       \<and> convertType K D context type = Inr (IntrinsicType ''Object'', context)"
  using assms by (simp add: convertNode_def convertType_def)

theorem no_symbol_gives_Object_witness:
  "type_symbol (TsType 1 None None) = None
   \<and> convertNode example_enums idle_dispatch empty_context alias_T (TsType 1 None None) =
       Inr (IntrinsicType ''Object'', empty_context)
   \<and> convertType example_enums idle_dispatch empty_context (TsType 1 None None) =
       Inr (IntrinsicType ''Object'', empty_context)"
  using no_symbol_gives_Object [of "TsType 1 None None" example_enums idle_dispatch empty_context alias_T]
  by simp

text \<open>
  C4, as stated, fails: a type whose symbol is there and has no declaration
  at all does not convert to the intrinsic \<^verbatim>\<open>Object\<close>. For a literal symbol the loop over
  the declarations finds nothing and a synthetic Declaration Node is made.
\<close>

theorem no_declarations_counterexample:
  "type_symbol bare_type = Some bare_symbol \<and> declarations bare_symbol = []
   \<and> map_sum id fst (convertType example_enums idle_dispatch empty_context bare_type) = Inr (ReflectionType 0)
   \<and> map_sum id fst (convertNode example_enums idle_dispatch empty_context alias_T bare_type) = Inr (ReflectionType 0)
   \<and> map_sum id fst (convertType example_enums idle_dispatch empty_context bare_type) \<noteq> Inr (IntrinsicType ''Object'')
   \<and> map_sum id fst (convertNode example_enums idle_dispatch empty_context alias_T bare_type) \<noteq> Inr (IntrinsicType ''Object'')"
  by (simp add: example_defs bare_symbol_def bare_type_def convertType_def convertNode_def
        is_literal_symbol_def convert_def new_declaration_def registerReflection_def trigger_def
        withScope_def)

lemma literal_path_result_is_ReflectionType:
  assumes "\<not> has_visited_declaration context symbol"
    and "convert D context symbol node = Inr (t, c)"
  shows "t = ReflectionType (next_id context)"
  using assms
  by (auto simp: convert_literal_unfold split: sum.splits)

lemma convert_loop_shape:
  "convert_loop c ds = Some (Inr t) \<Longrightarrow> \<exists>target. t = ReferenceType target None"
  by (induction ds) (auto simp: createReferenceType_def split: if_splits option.splits)

lemma cycle_path_reference:
  assumes "has_visited_declaration context symbol"
    and "convert D context symbol node = Inr (t, c)"
  shows "c = context \<and> (\<exists>target. t = ReferenceType target None)"
proof -
  from assms(1) have "convert_loop context (declarations symbol) \<noteq> None"
    by (simp add: convert_loop_None_iff)
  with assms(2) have "convert_loop context (declarations symbol) = Some (Inr t)" and "c = context"
    by (auto simp: convert_def split: option.splits sum.splits)
  with convert_loop_shape show ?thesis by blast
qed

text \<open>
  C5, as the code has it: for a type whose symbol carries the type-literal flag or the
  object-literal flag, \<^verbatim>\<open>convertNode\<close> and \<^verbatim>\<open>convertType\<close> are \<^verbatim>\<open>convert\<close> on that symbol
  (with the syntax node, and without one), and the step of the plain reference is not
  taken: whatever converts type arguments has no influence on the result, and a Reference
  Type Node that comes out carries no type arguments and leaves the context as it was. When
  no declaration of the symbol is being converted, the result is the ReflectionType of the
  node that \<^verbatim>\<open>convert\<close> makes. When one is, the result is the Reference Type Node of the
  cycle rule: for the symbol of the parent of a literal declaration, and for the own symbol
  of any other declaration.
\<close>

theorem literal_symbol_delegates:
  assumes "type_symbol type = Some symbol" and "is_literal_symbol K symbol"
  shows "convertNode K D context node type = convert D context symbol (Some node)
       \<and> convertType K D context type = convert D context symbol None
       \<and> convertNode K (D\<lparr>convertType_g := f\<rparr>) context node type = convertNode K D context node type
       \<and> convertType K (D\<lparr>convertType_g := f\<rparr>) context type = convertType K D context type
       \<and> (\<not> has_visited_declaration context symbol \<longrightarrow>
            (\<forall>t c. convertNode K D context node type = Inr (t, c) \<or>
                   convertType K D context type = Inr (t, c) \<longrightarrow>
                   t = ReflectionType (next_id context)))
       \<and> (\<forall>d p. find (\<lambda>d. node_ident d \<in> set (visitStack context)) (declarations symbol) = Some d \<longrightarrow>
                 (kind d = TypeLiteral \<or> kind d = ObjectLiteralExpression \<longrightarrow> parent d = Some p) \<longrightarrow>
                 convertNode K D context node type =
                   Inr (createReferenceType context
                          (if kind d = TypeLiteral \<or> kind d = ObjectLiteralExpression then symbol_of p
                           else symbol_of d), context) \<and>
                 convertType K D context type =
                   Inr (createReferenceType context
                          (if kind d = TypeLiteral \<or> kind d = ObjectLiteralExpression then symbol_of p
                           else symbol_of d), context))
       \<and> (\<forall>t c target args.
             convertNode K D context node type = Inr (t, c) \<or> convertType K D context type = Inr (t, c) \<longrightarrow>
             t = ReferenceType target args \<longrightarrow> args = None \<and> c = context)"
proof -
  have n: "convertNode K D context node type = convert D context symbol (Some node)"
    and t: "convertType K D context type = convert D context symbol None"
    using assms by (simp_all add: convertNode_def convertType_def)
  have i: "convertNode K (D\<lparr>convertType_g := f\<rparr>) context node type = convertNode K D context node type"
    "convertType K (D\<lparr>convertType_g := f\<rparr>) context type = convertType K D context type"
    using assms by (simp_all add: convertNode_def convertType_def convert_ignores_convertType_g)
  have fresh: "\<not> has_visited_declaration context symbol \<longrightarrow>
            (\<forall>t c. convertNode K D context node type = Inr (t, c) \<or>
                   convertType K D context type = Inr (t, c) \<longrightarrow>
                   t = ReflectionType (next_id context))"
    unfolding n t using literal_path_result_is_ReflectionType [of "context" symbol D] by blast
  have cyc: "\<forall>d p. find (\<lambda>d. node_ident d \<in> set (visitStack context)) (declarations symbol) = Some d \<longrightarrow>
                 (kind d = TypeLiteral \<or> kind d = ObjectLiteralExpression \<longrightarrow> parent d = Some p) \<longrightarrow>
                 convertNode K D context node type =
                   Inr (createReferenceType context
                          (if kind d = TypeLiteral \<or> kind d = ObjectLiteralExpression then symbol_of p
                           else symbol_of d), context) \<and>
                 convertType K D context type =
                   Inr (createReferenceType context
                          (if kind d = TypeLiteral \<or> kind d = ObjectLiteralExpression then symbol_of p
                           else symbol_of d), context)"
  proof (intro allI impI)
    fix d p
    assume f: "find (\<lambda>d. node_ident d \<in> set (visitStack context)) (declarations symbol) = Some d"
      and par: "kind d = TypeLiteral \<or> kind d = ObjectLiteralExpression \<longrightarrow> parent d = Some p"
    from f have on: "node_ident d \<in> set (visitStack context)"
      by (auto simp: find_Some_iff)
    have "convert D context symbol nd =
             Inr (createReferenceType context
                          (if kind d = TypeLiteral \<or> kind d = ObjectLiteralExpression then symbol_of p
                           else symbol_of d), context)" for nd
      using par on by (auto simp: convert_def convert_loop_first [OF f])
    then show "convertNode K D context node type =
                   Inr (createReferenceType context
                          (if kind d = TypeLiteral \<or> kind d = ObjectLiteralExpression then symbol_of p
                           else symbol_of d), context) \<and>
                 convertType K D context type =
                   Inr (createReferenceType context
                          (if kind d = TypeLiteral \<or> kind d = ObjectLiteralExpression then symbol_of p
                           else symbol_of d), context)"
      unfolding n t by simp
  qed
  have bare: "\<forall>t c target args.
             convertNode K D context node type = Inr (t, c) \<or> convertType K D context type = Inr (t, c) \<longrightarrow>
             t = ReferenceType target args \<longrightarrow> args = None \<and> c = context"
  proof (intro allI impI)
    fix t c target args
    assume r: "convertNode K D context node type = Inr (t, c) \<or> convertType K D context type = Inr (t, c)"
      and s: "t = ReferenceType target args"
    then obtain nd where c: "convert D context symbol nd = Inr (t, c)"
      unfolding n t by blast
    show "args = None \<and> c = context"
    proof (cases "has_visited_declaration context symbol")
      case True
      from cycle_path_reference [OF True c] s show ?thesis by auto
    next
      case False
      from literal_path_result_is_ReflectionType [OF False c] s show ?thesis by simp
    qed
  qed
  from n t i fresh cyc bare show ?thesis
    by (intro conjI) assumption+
qed

theorem literal_symbol_delegates_witness:
  "type_symbol literal_type = Some literal_symbol \<and> is_literal_symbol example_enums literal_symbol
   \<and> map_sum id fst (convertType example_enums idle_dispatch empty_context literal_type) =
       Inr (ReflectionType 0)
   \<and> map_sum id fst (convertNode example_enums idle_dispatch empty_context alias_T literal_type) =
       Inr (ReflectionType 0)
   \<and> find (\<lambda>d. node_ident d \<in> set (visitStack (empty_context\<lparr>visitStack := [2]\<rparr>)))
        (declarations literal_symbol) = Some literal_T
   \<and> convertNode example_enums idle_dispatch (empty_context\<lparr>visitStack := [2]\<rparr>) reference_node literal_type =
       Inr (ReferenceType (Pending (Some 1)) None, empty_context\<lparr>visitStack := [2]\<rparr>)
   \<and> convertType example_enums idle_dispatch (empty_context\<lparr>visitStack := [2]\<rparr>) literal_type =
       Inr (ReferenceType (Pending (Some 1)) None, empty_context\<lparr>visitStack := [2]\<rparr>)"
proof -
  have h: "type_symbol literal_type = Some literal_symbol"
    "is_literal_symbol example_enums literal_symbol"
    by (simp_all add: example_defs is_literal_symbol_def)
  have fresh: "\<not> has_visited_declaration empty_context literal_symbol"
    by (simp add: example_defs has_visited_declaration_def)
  have f: "find (\<lambda>d. node_ident d \<in> set (visitStack (empty_context\<lparr>visitStack := [2]\<rparr>)))
        (declarations literal_symbol) = Some literal_T"
    by (simp add: example_defs)
  have p: "kind literal_T = TypeLiteral \<or> kind literal_T = ObjectLiteralExpression \<Longrightarrow>
           parent literal_T = Some alias_T"
    by (simp add: example_defs)
  note fact = literal_symbol_delegates [OF h]
  have one: "convertType example_enums idle_dispatch empty_context literal_type =
       convert idle_dispatch empty_context literal_symbol None"
    "convertNode example_enums idle_dispatch empty_context alias_T literal_type =
       convert idle_dispatch empty_context literal_symbol (Some alias_T)"
    using fact [of idle_dispatch empty_context alias_T "convertType_g idle_dispatch"] by simp_all
  have two: "convertNode example_enums idle_dispatch (empty_context\<lparr>visitStack := [2]\<rparr>) reference_node literal_type =
       Inr (createReferenceType (empty_context\<lparr>visitStack := [2]\<rparr>) (symbol_of alias_T),
            empty_context\<lparr>visitStack := [2]\<rparr>)"
    "convertType example_enums idle_dispatch (empty_context\<lparr>visitStack := [2]\<rparr>) literal_type =
       Inr (createReferenceType (empty_context\<lparr>visitStack := [2]\<rparr>) (symbol_of alias_T),
            empty_context\<lparr>visitStack := [2]\<rparr>)"
    using fact [of idle_dispatch "empty_context\<lparr>visitStack := [2]\<rparr>" reference_node
            "convertType_g idle_dispatch", THEN conjunct2, THEN conjunct2, THEN conjunct2,
            THEN conjunct2, THEN conjunct2, THEN conjunct1, rule_format, OF f p]
    by (simp_all add: literal_T_def)
  have ev: "map_sum id fst (convert idle_dispatch empty_context literal_symbol nd) = Inr (ReflectionType 0)" for nd
    by (simp add: example_defs convert_def new_declaration_def registerReflection_def trigger_def
          withScope_def)
  have cr: "createReferenceType (empty_context\<lparr>visitStack := [2]\<rparr>) (symbol_of alias_T) =
          ReferenceType (Pending (Some 1)) None"
    by (simp add: example_defs createReferenceType_def)
  from h f one two ev cr show ?thesis by simp
qed

text \<open>
  C5, as stated, fails: a Reference Type Node for that very symbol can come out. While the
  declaration of a function type literal is being converted, the type converts to the
  Reference Type Node of Reference Resolution for the literal's own symbol, the same node
  that the plain reference gives for a symbol of that identity without the flag.
\<close>

theorem plain_reference_counterexample:
  "is_literal_symbol example_enums function_literal_symbol
   \<and> has_visited_declaration (empty_context\<lparr>visitStack := [4]\<rparr>) function_literal_symbol
   \<and> convertType example_enums idle_dispatch (empty_context\<lparr>visitStack := [4]\<rparr>)
        (TsType 32768 (Some function_literal_symbol) None) =
       Inr (ReferenceType (Pending (Some 2)) None, empty_context\<lparr>visitStack := [4]\<rparr>)
   \<and> convertNode example_enums idle_dispatch (empty_context\<lparr>visitStack := [4]\<rparr>) alias_T
        (TsType 32768 (Some function_literal_symbol) None) =
       Inr (ReferenceType (Pending (Some 2)) None, empty_context\<lparr>visitStack := [4]\<rparr>)
   \<and> createReferenceType (empty_context\<lparr>visitStack := [4]\<rparr>) (Some (sym_ident function_literal_symbol)) =
       ReferenceType (Pending (Some 2)) None
   \<and> convertType example_enums idle_dispatch (empty_context\<lparr>visitStack := [4]\<rparr>)
        (TsType 1024 (Some (function_literal_symbol\<lparr>flags := 32\<rparr>)) None) =
       Inr (ReferenceType (Pending (Some 2)) None, empty_context\<lparr>visitStack := [4]\<rparr>)"
  by (simp add: example_defs function_literal_symbol_def is_literal_symbol_def
        has_visited_declaration_def convertType_def convertNode_def convert_def
        createReferenceType_def)

lemma map_convert_chain:
  assumes "map_convert f c xs = Inr (ts, c')"
  shows "\<exists>cs. length cs = Suc (length xs) \<and> hd cs = c \<and> last cs = c' \<and> length ts = length xs
           \<and> (\<forall>i < length xs. f (cs ! i) (xs ! i) = Inr (ts ! i, cs ! Suc i))"
  using assms
proof (induction xs arbitrary: c ts)
  case Nil
  then show ?case by (intro exI [of _ "[c]"]) simp
next
  case (Cons x xs)
  from Cons.prems obtain t c1 ts' where
    step: "f c x = Inr (t, c1)" and rest: "map_convert f c1 xs = Inr (ts', c')" and ts: "ts = t # ts'"
    by (auto split: sum.splits prod.splits)
  from Cons.IH [OF rest] obtain cs where
    cs: "length cs = Suc (length xs)" "hd cs = c1" "last cs = c'" "length ts' = length xs"
        "\<forall>i < length xs. f (cs ! i) (xs ! i) = Inr (ts' ! i, cs ! Suc i)"
    by blast
  from cs(1) have ne: "cs \<noteq> []" by auto
  have nth0: "cs ! 0 = c1" using cs(2) ne by (simp add: hd_conv_nth)
  have "\<forall>i < length (x # xs). f ((c # cs) ! i) ((x # xs) ! i) = Inr (ts ! i, (c # cs) ! Suc i)"
  proof (intro allI impI)
    fix i assume "i < length (x # xs)"
    then show "f ((c # cs) ! i) ((x # xs) ! i) = Inr (ts ! i, (c # cs) ! Suc i)"
      using step cs(5) nth0 ts by (cases i) auto
  qed
  then show ?case
    using cs ne ts by (intro exI [of _ "c # cs"]) simp
qed

text \<open>
  C6: for a type whose symbol is there and is not flagged as a literal, the result is the
  Reference Type Node that Reference Resolution gives for the symbol in the context of the
  call. Without type arguments at the source site that is all, and the context is as it was.
  With type arguments, each one goes through the dispatcher of the registry, from left to
  right, each in the context the one before left, and the results are attached to the
  node in that order, one for each argument.
\<close>

theorem named_reference_with_arguments:
  assumes "type_symbol type = Some symbol" and "\<not> is_literal_symbol K symbol"
  shows "\<exists>target. createReferenceType context (Some (sym_ident symbol)) = ReferenceType target None
     \<and> (typeArguments node = None \<longrightarrow>
            convertNode K D context node type = Inr (ReferenceType target None, context))
     \<and> (type_typeArguments type = None \<longrightarrow>
            convertType K D context type = Inr (ReferenceType target None, context))
     \<and> (\<forall>ns t c'. typeArguments node = Some ns \<longrightarrow> convertNode K D context node type = Inr (t, c') \<longrightarrow>
            (\<exists>ts cs. t = ReferenceType target (Some ts) \<and> length ts = length ns
               \<and> length cs = Suc (length ns) \<and> hd cs = context \<and> last cs = c'
               \<and> (\<forall>i < length ns. convertType_g D (cs ! i) (Some (ns ! i)) None = Inr (ts ! i, cs ! Suc i))))
     \<and> (\<forall>tys t c'. type_typeArguments type = Some tys \<longrightarrow> convertType K D context type = Inr (t, c') \<longrightarrow>
            (\<exists>ts cs. t = ReferenceType target (Some ts) \<and> length ts = length tys
               \<and> length cs = Suc (length tys) \<and> hd cs = context \<and> last cs = c'
               \<and> (\<forall>i < length tys. convertType_g D (cs ! i) None (Some (tys ! i)) = Inr (ts ! i, cs ! Suc i))))"
proof -
  obtain target where tg: "createReferenceType context (Some (sym_ident symbol)) = ReferenceType target None"
    using createReferenceType_shape by blast
  have a: "typeArguments node = None \<longrightarrow>
            convertNode K D context node type = Inr (ReferenceType target None, context)"
    using assms tg by (simp add: convertNode_def)
  have b: "type_typeArguments type = None \<longrightarrow>
            convertType K D context type = Inr (ReferenceType target None, context)"
    using assms tg by (simp add: convertType_def)
  have c: "\<forall>ns t c'. typeArguments node = Some ns \<longrightarrow> convertNode K D context node type = Inr (t, c') \<longrightarrow>
            (\<exists>ts cs. t = ReferenceType target (Some ts) \<and> length ts = length ns
               \<and> length cs = Suc (length ns) \<and> hd cs = context \<and> last cs = c'
               \<and> (\<forall>i < length ns. convertType_g D (cs ! i) (Some (ns ! i)) None = Inr (ts ! i, cs ! Suc i)))"
  proof (intro allI impI)
    fix ns t c'
    assume "typeArguments node = Some ns" and "convertNode K D context node type = Inr (t, c')"
    with assms tg obtain ts where
      m: "map_convert (\<lambda>c n. convertType_g D c (Some n) None) context ns = Inr (ts, c')"
      and t: "t = ReferenceType target (Some ts)"
      by (auto simp: convertNode_def split: sum.splits)
    from map_convert_chain [OF m] t
    show "\<exists>ts cs. t = ReferenceType target (Some ts) \<and> length ts = length ns
               \<and> length cs = Suc (length ns) \<and> hd cs = context \<and> last cs = c'
               \<and> (\<forall>i < length ns. convertType_g D (cs ! i) (Some (ns ! i)) None = Inr (ts ! i, cs ! Suc i))"
      by blast
  qed
  have d: "\<forall>tys t c'. type_typeArguments type = Some tys \<longrightarrow> convertType K D context type = Inr (t, c') \<longrightarrow>
            (\<exists>ts cs. t = ReferenceType target (Some ts) \<and> length ts = length tys
               \<and> length cs = Suc (length tys) \<and> hd cs = context \<and> last cs = c'
               \<and> (\<forall>i < length tys. convertType_g D (cs ! i) None (Some (tys ! i)) = Inr (ts ! i, cs ! Suc i)))"
  proof (intro allI impI)
    fix tys t c'
    assume "type_typeArguments type = Some tys" and "convertType K D context type = Inr (t, c')"
    with assms tg obtain ts where
      m: "map_convert (\<lambda>c t. convertType_g D c None (Some t)) context tys = Inr (ts, c')"
      and t: "t = ReferenceType target (Some ts)"
      by (auto simp: convertType_def split: sum.splits)
    from map_convert_chain [OF m] t
    show "\<exists>ts cs. t = ReferenceType target (Some ts) \<and> length ts = length tys
               \<and> length cs = Suc (length tys) \<and> hd cs = context \<and> last cs = c'
               \<and> (\<forall>i < length tys. convertType_g D (cs ! i) None (Some (tys ! i)) = Inr (ts ! i, cs ! Suc i))"
      by blast
  qed
  from tg a b c d show ?thesis
    by - (rule exI [of _ target], intro conjI, assumption+)
qed

theorem named_reference_with_arguments_witness:
  "type_symbol named_type = Some named_symbol \<and> \<not> is_literal_symbol example_enums named_symbol
   \<and> convertNode example_enums naming_dispatch empty_context reference_node named_type =
       Inr (ReferenceType (Pending (Some 7)) (Some [IntrinsicType ''string'', IntrinsicType ''number'']),
            empty_context)
   \<and> convertType example_enums naming_dispatch empty_context named_type =
       Inr (ReferenceType (Pending (Some 7)) (Some [IntrinsicType ''string'', IntrinsicType ''number'']),
            empty_context)"
  using named_reference_with_arguments [of named_type named_symbol example_enums empty_context
          reference_node naming_dispatch]
  by (simp add: example_defs naming_dispatch_def named_symbol_def named_type_def reference_node_def
        is_literal_symbol_def convertNode_def convertType_def createReferenceType_def)

subsection \<open>The post-pass\<close>

lemma targets_resolveType:
  "targets (resolveType reg t) = map (resolve_target reg) (targets t)"
proof (induction t)
  case (ReferenceType target args)
  show ?case
  proof (cases args)
    case None
    then show ?thesis by simp
  next
    case (Some ts)
    from ReferenceType Some
    have "\<forall>t \<in> set ts. targets (resolveType reg t) = map (resolve_target reg) (targets t)"
      by auto
    then have "concat (map (targets \<circ> resolveType reg) ts) = map (resolve_target reg) (concat (map targets ts))"
      by (induction ts) auto
    with Some show ?thesis by (simp add: comp_def)
  qed
qed simp_all

lemma no_pending_after_resolve:
  "Pending s \<notin> set (targets (resolveType reg t))"
proof -
  have never: "resolve_target reg x \<noteq> Pending s" for x
    by (cases "(reg, x)" rule: resolve_target.cases) (auto split: option.splits)
  show ?thesis
  proof
    assume "Pending s \<in> set (targets (resolveType reg t))"
    then obtain x where "resolve_target reg x = Pending s"
      by (auto simp: targets_resolveType)
    with never show False by blast
  qed
qed

text \<open>
  C8: with a final registry that does not hold the symbol, the pass turns a reference that
  is pending on it into a reference with the external/unknown marker, at the top of a Type
  Node and anywhere among its type arguments, and so for the declared type of every
  Declaration Node of the run. The pass is a total function: it has no error to raise.
\<close>

theorem unregistered_reference_resolves_external:
  assumes "registry context s = None"
  shows "resolveType (registry context) (ReferenceType (Pending (Some s)) args) =
           ReferenceType External (map_option (map (resolveType (registry context))) args)
       \<and> (\<forall>t. targets (resolveType (registry context) t) = map (resolve_target (registry context)) (targets t))
       \<and> resolve_target (registry context) (Pending (Some s)) = External
       \<and> (\<forall>r d. reflections context r = Some d \<longrightarrow> refl_type d = Some (ReferenceType (Pending (Some s)) args) \<longrightarrow>
            (\<exists>d'. reflections (resolve_pass context) r = Some d'
                 \<and> refl_type d' = Some (ReferenceType External
                                          (map_option (map (resolveType (registry context))) args))))"
  using assms by (auto simp: targets_resolveType resolve_pass_def)

theorem unregistered_reference_resolves_external_witness:
  "registry pending_context 1 = None
   \<and> map_option refl_type (reflections (resolve_pass pending_context) 1) =
       Some (Some (ReferenceType External None))
   \<and> resolveType (registry pending_context)
        (ReferenceType (Resolved 0) (Some [ReferenceType (Pending (Some 1)) None, IntrinsicType ''string''])) =
       ReferenceType (Resolved 0) (Some [ReferenceType External None, IntrinsicType ''string''])"
  using unregistered_reference_resolves_external [of pending_context 1 None]
  by (simp add: pending_context_def resolve_pass_def)


subsection \<open>The walk of a self-referential literal\<close>


































































end
